theory Spec2Isabelle
  imports Complex_Main
begin

section \<open>Dates, times and hours\<close>

text \<open>
  The program works on Python \<^verbatim>\<open>datetime\<close> values that have all been brought to the one
  reference zone (\<^verbatim>\<open>convert_to_pacific\<close> rebuilds every value from its year, month, day,
  hour, minute and second, so nothing finer than a second survives). A \<open>date\<close> is the
  proleptic Gregorian ordinal of a day (\<^verbatim>\<open>date.toordinal()\<close>); a \<open>datetime\<close> is the number
  of wall-clock seconds since midnight of ordinal 0. Comparison and subtraction of two
  values are those of the integers: the model reads every value at one fixed offset and
  leaves daylight-saving transitions out. Hours are rational numbers; Python's floats are
  replaced by exact arithmetic.
\<close>

type_synonym date = int
type_synonym datetime = int
type_synonym interval = "datetime \<times> datetime"

definition is_leap :: "int \<Rightarrow> bool" where
  "is_leap y = (y mod 4 = 0 \<and> (y mod 100 \<noteq> 0 \<or> y mod 400 = 0))"

definition days_before_year :: "int \<Rightarrow> int" where
  "days_before_year year = (let y = year - 1 in y * 365 + y div 4 - y div 100 + y div 400)"

definition days_before_month :: "int \<Rightarrow> int \<Rightarrow> int" where
  "days_before_month year month =
     sum_list (take (nat (month - 1)) [31, 28, 31, 30, 31, 30, 31, 31, 30, 31, 30, 31])
       + (if month > 2 \<and> is_leap year then 1 else 0)"

definition ymd2ord :: "int \<Rightarrow> int \<Rightarrow> int \<Rightarrow> date" where
  \<comment> \<open>\<^verbatim>\<open>datetime.date(year, month, day).toordinal()\<close>\<close>
  "ymd2ord year month day = days_before_year year + days_before_month year month + day"

definition combine :: "date \<Rightarrow> int \<Rightarrow> datetime" where
  \<comment> \<open>\<^verbatim>\<open>datetime.datetime.combine(d, datetime.time(hour, 0))\<close>, localized\<close>
  "combine d hour = d * 86400 + hour * 3600"

definition mk_datetime :: "int \<Rightarrow> int \<Rightarrow> int \<Rightarrow> int \<Rightarrow> int \<Rightarrow> int \<Rightarrow> datetime" where
  \<comment> \<open>\<^verbatim>\<open>datetime.datetime(year, month, day, hour, minute, second)\<close>\<close>
  "mk_datetime year month day hour minute second =
     ymd2ord year month day * 86400 + hour * 3600 + minute * 60 + second"

definition date_of :: "datetime \<Rightarrow> date" where
  "date_of t = t div 86400"

definition hour_of :: "datetime \<Rightarrow> int" where
  "hour_of t = (t mod 86400) div 3600"

definition minute_of :: "datetime \<Rightarrow> int" where
  "minute_of t = (t mod 3600) div 60"

definition second_of :: "datetime \<Rightarrow> int" where
  "second_of t = t mod 60"

definition weekday :: "date \<Rightarrow> int" where
  \<comment> \<open>\<^verbatim>\<open>date.weekday()\<close>: Monday is 0, Sunday is 6\<close>
  "weekday d = (d + 6) mod 7"

definition hours_of_seconds :: "int \<Rightarrow> rat" where
  \<comment> \<open>\<^verbatim>\<open>timedelta.total_seconds() / 3600.0\<close>\<close>
  "hours_of_seconds s = of_int s / 3600"

section \<open>Configuration\<close>

definition dict_get :: "('k \<rightharpoonup> 'v) \<Rightarrow> 'k \<Rightarrow> 'v \<Rightarrow> 'v" where
  \<comment> \<open>\<^verbatim>\<open>d.get(k, default)\<close>\<close>
  "dict_get d k dflt = (case d k of None \<Rightarrow> dflt | Some v \<Rightarrow> v)"

definition DAILY_WORK_HOURS_items :: "(int \<times> int) list" where
  "DAILY_WORK_HOURS_items = [(0, 8), (1, 8), (2, 8), (3, 9), (4, 9), (5, 0), (6, 0)]"

definition DAILY_WORK_HOURS :: "int \<rightharpoonup> int" where
  "DAILY_WORK_HOURS = map_of DAILY_WORK_HOURS_items"

definition DAILY_START_TIMES :: "int \<rightharpoonup> int" where
  "DAILY_START_TIMES = map_of [(0, 9), (1, 9), (2, 9), (3, 8), (4, 8), (5, 9), (6, 9)]"

definition TOTAL_WORK_HOURS :: int where
  "TOTAL_WORK_HOURS = sum_list (map snd (filter (\<lambda>(day, hours). day < 5) DAILY_WORK_HOURS_items))"

record budget =
  bmin :: int
  bmax :: int
  bwarn :: int

definition BUDGETS_items :: "(string \<times> budget) list" where
  "BUDGETS_items =
     [(''Focus Time'', \<lparr>bmin = 12, bmax = 15, bwarn = 14\<rparr>),
      (''Collaboration'', \<lparr>bmin = 4, bmax = 8, bwarn = 6\<rparr>),
      (''Communication'', \<lparr>bmin = 0, bmax = 8, bwarn = 6\<rparr>),
      (''Work Meeting'', \<lparr>bmin = 0, bmax = 12, bwarn = 10\<rparr>),
      (''Unavailable'', \<lparr>bmin = 0, bmax = 6, bwarn = 5\<rparr>)]"

definition BUDGETS :: "string \<rightharpoonup> budget" where
  "BUDGETS = map_of BUDGETS_items"

definition KNOWN_CATEGORIES :: "string set" where
  "KNOWN_CATEGORIES =
     {''Focus Time'', ''Communication'', ''Unavailable'', ''Collaboration'', ''Holiday/Vacation''}"

section \<open>Strings\<close>

definition is_space :: "char \<Rightarrow> bool" where
  \<comment> \<open>the characters \<^verbatim>\<open>str.strip()\<close> removes, among the code points below 256\<close>
  "is_space c = (of_char c \<in> {9, 10, 11, 12, 13, 28, 29, 30, 31, 32, 133, 160 :: nat})"

definition strip :: "string \<Rightarrow> string" where
  "strip s = rev (dropWhile is_space (rev (dropWhile is_space s)))"

fun split_on :: "char \<Rightarrow> string \<Rightarrow> string list" where
  "split_on sep [] = [[]]"
| "split_on sep (c # cs) =
     (if c = sep then [] # split_on sep cs
      else (case split_on sep cs of [] \<Rightarrow> [[c]] | t # ts \<Rightarrow> (c # t) # ts))"

definition first_category :: "string \<Rightarrow> string" where
  \<comment> \<open>\<^verbatim>\<open>categories_str.split(",")[0].strip()\<close>\<close>
  "first_category categories_str = strip (hd (split_on CHR '','' categories_str))"

section \<open>Events\<close>

record event =
  subject :: string
  start_pt :: datetime
  end_pt :: datetime
  duration_hours :: rat
  categories :: string

subsection \<open>\<^verbatim>\<open>calculate_work_hours_overlap\<close>\<close>

function work_hours_overlap_loop ::
  "datetime \<Rightarrow> datetime \<Rightarrow> date \<Rightarrow> date \<Rightarrow> rat \<Rightarrow> rat" where
  "work_hours_overlap_loop start_t end_t current_date end_date total_overlap =
     (if current_date \<le> end_date then
        (let wd = weekday current_date;
             daily_hours = dict_get DAILY_WORK_HOURS wd 0;
             start_hour = dict_get DAILY_START_TIMES wd 9
         in if daily_hours = 0 then
              work_hours_overlap_loop start_t end_t (current_date + 1) end_date total_overlap
            else
              (let work_start = combine current_date start_hour;
                   work_end = combine current_date (start_hour + daily_hours);
                   event_start_today = max start_t work_start;
                   event_end_today = min end_t work_end
               in if event_start_today < event_end_today then
                    work_hours_overlap_loop start_t end_t (current_date + 1) end_date
                      (total_overlap + hours_of_seconds (event_end_today - event_start_today))
                  else
                    work_hours_overlap_loop start_t end_t (current_date + 1) end_date
                      total_overlap))
      else total_overlap)"
  by pat_completeness auto
termination
  by (relation "measure (\<lambda>(s, e, c, ed, t). nat (ed + 1 - c))") auto

definition calculate_work_hours_overlap :: "datetime \<Rightarrow> datetime \<Rightarrow> rat" where
  "calculate_work_hours_overlap start_time end_time =
     max 0 (work_hours_overlap_loop start_time end_time (date_of start_time) (date_of end_time) 0)"

subsection \<open>\<^verbatim>\<open>is_all_day_holiday\<close>\<close>

definition is_all_day_holiday :: "event \<Rightarrow> bool" where
  "is_all_day_holiday ev =
     (if categories ev = [] then False
      else if first_category (categories ev) \<noteq> ''Holiday/Vacation'' then False
      else
        (let start_time = start_pt ev;
             end_time = end_pt ev;
             start_is_midnight =
               (hour_of start_time = 0 \<and> minute_of start_time = 0 \<and> second_of start_time = 0);
             end_is_midnight =
               (hour_of end_time = 0 \<and> minute_of end_time = 0 \<and> second_of end_time = 0);
             is_full_day = (hours_of_seconds (end_time - start_time) \<ge> 24)
         in start_is_midnight \<and> end_is_midnight \<and> is_full_day))"

subsection \<open>\<^verbatim>\<open>categorize_event\<close>\<close>

definition categorize_event :: "string \<Rightarrow> string" where
  "categorize_event categories_str =
     (if categories_str = [] \<or> strip categories_str = [] then ''Work Meeting''
      else
        (let category = first_category categories_str
         in if category \<notin> KNOWN_CATEGORIES then ''Work Meeting'' else category))"

section \<open>\<^verbatim>\<open>build_report\<close>\<close>

text \<open>
  A dictionary whose insertion order the program later walks (\<^verbatim>\<open>durations\<close>,
  \<^verbatim>\<open>intervals_by_day\<close>) is an association list with one entry per key, in insertion
  order. \<open>defaultdict_update dflt k f\<close> is \<^verbatim>\<open>d[k] = f(d[k])\<close> on a
  \<^verbatim>\<open>defaultdict\<close> whose missing keys start at \<open>dflt\<close>.
\<close>

fun defaultdict_update :: "'v \<Rightarrow> 'k \<Rightarrow> ('v \<Rightarrow> 'v) \<Rightarrow> ('k \<times> 'v) list \<Rightarrow> ('k \<times> 'v) list" where
  "defaultdict_update dflt k f [] = [(k, f dflt)]"
| "defaultdict_update dflt k f ((k', v) # kvs) =
     (if k' = k then (k', f v) # kvs else (k', v) # defaultdict_update dflt k f kvs)"

subsection \<open>All-day holidays and the work-hours reduction\<close>

function holiday_dates_loop :: "date \<Rightarrow> date \<Rightarrow> date set \<times> rat \<Rightarrow> date set \<times> rat" where
  "holiday_dates_loop current_date end_date (holiday_dates, holiday_hours_reduction) =
     (if current_date < end_date then
        holiday_dates_loop (current_date + 1) end_date
          (insert current_date holiday_dates,
           holiday_hours_reduction + of_int (dict_get DAILY_WORK_HOURS (weekday current_date) 0))
      else (holiday_dates, holiday_hours_reduction))"
  by pat_completeness auto
termination
  by (relation "measure (\<lambda>(c, ed, st). nat (ed - c))") auto

definition holiday_step :: "date set \<times> rat \<Rightarrow> event \<Rightarrow> date set \<times> rat" where
  "holiday_step st ev =
     (if is_all_day_holiday ev then
        holiday_dates_loop (date_of (start_pt ev)) (date_of (end_pt ev)) st
      else st)"

definition find_holidays :: "event list \<Rightarrow> date set \<times> rat" where
  \<comment> \<open>the pair (\<^verbatim>\<open>holiday_dates\<close>, \<^verbatim>\<open>holiday_hours_reduction\<close>) after the first loop\<close>
  "find_holidays events = foldl holiday_step ({}, 0) events"

definition holiday_dates_of :: "event list \<Rightarrow> date set" where
  "holiday_dates_of events = fst (find_holidays events)"

definition holiday_hours_reduction_of :: "event list \<Rightarrow> rat" where
  "holiday_hours_reduction_of events = snd (find_holidays events)"

subsection \<open>Events kept, and the raw hours by category\<close>

definition non_holiday_events_of :: "date set \<Rightarrow> event list \<Rightarrow> event list" where
  "non_holiday_events_of holiday_dates events =
     filter (\<lambda>ev. date_of (start_pt ev) \<notin> holiday_dates) events"

definition durations_step :: "(string \<times> rat) list \<Rightarrow> event \<Rightarrow> (string \<times> rat) list" where
  "durations_step durations ev =
     defaultdict_update 0 (categorize_event (categories ev)) (\<lambda>v. v + duration_hours ev) durations"

definition durations_of :: "event list \<Rightarrow> (string \<times> rat) list" where
  "durations_of non_holiday_events = foldl durations_step [] non_holiday_events"

subsection \<open>Busy time: intervals by day, merged\<close>

function intervals_loop ::
  "date set \<Rightarrow> datetime \<Rightarrow> datetime \<Rightarrow> date \<Rightarrow> date \<Rightarrow> (date \<times> interval list) list
     \<Rightarrow> (date \<times> interval list) list" where
  "intervals_loop holiday_dates start_t end_t current_date last_date intervals_by_day =
     (if current_date \<le> last_date then
        (if current_date \<in> holiday_dates then
           intervals_loop holiday_dates start_t end_t (current_date + 1) last_date intervals_by_day
         else
           (let wd = weekday current_date;
                daily_hours = dict_get DAILY_WORK_HOURS wd 0;
                start_hour = dict_get DAILY_START_TIMES wd 9
            in if daily_hours > 0 then
                 (let work_start = combine current_date start_hour;
                      work_end = combine current_date (start_hour + daily_hours);
                      interval_start = max start_t work_start;
                      interval_end = min end_t work_end
                  in if interval_start < interval_end then
                       intervals_loop holiday_dates start_t end_t (current_date + 1) last_date
                         (defaultdict_update [] current_date
                            (\<lambda>l. l @ [(interval_start, interval_end)]) intervals_by_day)
                     else
                       intervals_loop holiday_dates start_t end_t (current_date + 1) last_date
                         intervals_by_day)
               else
                 intervals_loop holiday_dates start_t end_t (current_date + 1) last_date
                   intervals_by_day))
      else intervals_by_day)"
  by pat_completeness auto
termination
  by (relation "measure (\<lambda>(h, s, e, c, ld, acc). nat (ld + 1 - c))") auto

definition intervals_step ::
  "date set \<Rightarrow> (date \<times> interval list) list \<Rightarrow> event \<Rightarrow> (date \<times> interval list) list" where
  "intervals_step holiday_dates intervals_by_day ev =
     intervals_loop holiday_dates (start_pt ev) (end_pt ev)
       (date_of (start_pt ev)) (date_of (end_pt ev)) intervals_by_day"

definition intervals_by_day_of ::
  "date set \<Rightarrow> event list \<Rightarrow> (date \<times> interval list) list" where
  "intervals_by_day_of holiday_dates non_holiday_events =
     foldl (intervals_step holiday_dates) [] non_holiday_events"

definition merge_step :: "interval list \<Rightarrow> interval \<Rightarrow> interval list" where
  "merge_step merged iv =
     (if merged = [] \<or> fst iv > snd (last merged) then merged @ [iv]
      else butlast merged @ [(fst (last merged), max (snd (last merged)) (snd iv))])"

definition merge_intervals :: "interval list \<Rightarrow> interval list" where
  \<comment> \<open>\<^verbatim>\<open>day_intervals.sort(key=lambda iv: iv[0])\<close>, then the merging loop\<close>
  "merge_intervals day_intervals = foldl merge_step [] (sort_key fst day_intervals)"

definition interval_hours :: "interval \<Rightarrow> rat" where
  "interval_hours iv = hours_of_seconds (snd iv - fst iv)"

definition total_hours :: "interval list \<Rightarrow> rat" where
  "total_hours ivs = sum_list (map interval_hours ivs)"

definition busy_hours_of :: "(date \<times> interval list) list \<Rightarrow> rat" where
  "busy_hours_of intervals_by_day =
     sum_list (map (\<lambda>(day, day_intervals). total_hours (merge_intervals day_intervals))
       intervals_by_day)"

subsection \<open>Budget rows\<close>

record row =
  row_category :: string
  row_hours :: rat
  row_remaining :: "rat option"
  row_warning :: string

definition warn_msg :: "budget option \<Rightarrow> rat \<Rightarrow> string" where
  "warn_msg budget hrs =
     (case budget of
        None \<Rightarrow> []
      | Some b \<Rightarrow>
          if hrs > of_int (bmax b) then ''Exceeded''
          else if hrs > of_int (bwarn b) then ''Warning''
          else if hrs < of_int (bmin b) then ''Below min''
          else [])"

definition category_row :: "string \<times> rat \<Rightarrow> row" where
  "category_row entry =
     (let cat = fst entry; hrs = snd entry; budget = BUDGETS cat
      in \<lparr>row_category = cat, row_hours = hrs,
          row_remaining = map_option (\<lambda>b. of_int (bmax b) - hrs) budget,
          row_warning = warn_msg budget hrs\<rparr>)"

definition zero_category_row :: "string \<times> budget \<Rightarrow> row" where
  "zero_category_row entry =
     \<lparr>row_category = fst entry, row_hours = 0,
      row_remaining = Some (of_int (bmax (snd entry))),
      row_warning = (if bmin (snd entry) \<noteq> 0 then ''Below min'' else [])\<rparr>"

subsection \<open>The debug listing\<close>

record debug_line =
  dl_event :: event
  dl_category :: string
  holiday_marker :: string
  filtered_marker :: string

definition debug_line_of :: "date set \<Rightarrow> event \<Rightarrow> debug_line" where
  "debug_line_of holiday_dates ev =
     \<lparr>dl_event = ev,
      dl_category = categorize_event (categories ev),
      holiday_marker = (if is_all_day_holiday ev then '' [ALL-DAY HOLIDAY/VACATION]'' else []),
      filtered_marker =
        (if date_of (start_pt ev) \<in> holiday_dates \<and> \<not> is_all_day_holiday ev
         then '' [FILTERED]'' else [])\<rparr>"

definition debug_listing :: "date set \<Rightarrow> event list \<Rightarrow> debug_line list" where
  "debug_listing holiday_dates events =
     map (debug_line_of holiday_dates) (sort_key start_pt events)"

subsection \<open>The report\<close>

text \<open>
  The report is what \<^verbatim>\<open>build_report\<close> prints, as values. The order of the category rows
  (\<^verbatim>\<open>sort_categories\<close>) and the layout of the text are rendering and are left out; the
  rows stand in the order of the dictionaries they come from.
\<close>

record report =
  events_analyzed :: nat
  durations :: "(string \<times> rat) list"
  total_meeting_time_raw :: rat
  busy_hours_total :: rat
  holiday_hours_reduction :: rat
  adjusted_total_work_hours :: rat
  free_time :: rat
  category_rows :: "row list"
  zero_rows :: "row list"
  holiday_row :: "rat option"
  debug_section :: "debug_line list"

definition report_body :: "event list \<Rightarrow> bool \<Rightarrow> report" where
  "report_body events debug =
     (let holiday_dates = holiday_dates_of events;
          holiday_hours_reduction = holiday_hours_reduction_of events;
          non_holiday_events = non_holiday_events_of holiday_dates events;
          durations = durations_of non_holiday_events;
          has_holiday = (holiday_hours_reduction > 0);
          total_meeting_time_raw = sum_list (map snd durations);
          intervals_by_day = intervals_by_day_of holiday_dates non_holiday_events;
          busy_hours_total = busy_hours_of intervals_by_day;
          adjusted_total_work_hours = of_int TOTAL_WORK_HOURS - holiday_hours_reduction;
          free_time = max 0 (adjusted_total_work_hours - busy_hours_total)
      in \<lparr>events_analyzed = length events,
          durations = durations,
          total_meeting_time_raw = total_meeting_time_raw,
          busy_hours_total = busy_hours_total,
          holiday_hours_reduction = holiday_hours_reduction,
          adjusted_total_work_hours = adjusted_total_work_hours,
          free_time = free_time,
          category_rows = map category_row durations,
          zero_rows =
            map zero_category_row
              (filter (\<lambda>entry. fst entry \<notin> fst ` set durations) BUDGETS_items),
          holiday_row = (if has_holiday then Some holiday_hours_reduction else None),
          debug_section = (if debug then debug_listing holiday_dates events else [])\<rparr>)"

definition build_report :: "event list \<Rightarrow> bool \<Rightarrow> report option" where
  \<comment> \<open>\<open>None\<close>: the early return that prints only the notice that no events were found\<close>
  "build_report events debug = (if events = [] then None else Some (report_body events debug))"

section \<open>Events as \<^verbatim>\<open>_fetch_events_for_range\<close> builds them\<close>

record item =
  item_subject :: string
  item_start :: datetime
  item_end :: datetime
  item_categories :: string
  busy_status :: int
  is_cancelled :: bool

definition event_info :: "string \<Rightarrow> datetime \<Rightarrow> datetime \<Rightarrow> string \<Rightarrow> event" where
  \<comment> \<open>the dictionary \<^verbatim>\<open>event_info\<close> of one calendar item\<close>
  "event_info subj start_t end_t categories_str =
     \<lparr>subject = subj, start_pt = start_t, end_pt = end_t,
      duration_hours = calculate_work_hours_overlap start_t end_t,
      categories = categories_str\<rparr>"

definition fetch_step :: "event list \<Rightarrow> item \<Rightarrow> event list" where
  "fetch_step events it =
     (if is_cancelled it then events
      else
        (let first_cat =
               (if item_categories it \<noteq> [] then first_category (item_categories it) else [])
         in if busy_status it = 0 \<and> first_cat \<noteq> ''Holiday/Vacation'' then events
            else
              (let work_hours_duration =
                     calculate_work_hours_overlap (item_start it) (item_end it)
               in if work_hours_duration > 0 \<or> first_cat = ''Holiday/Vacation'' then
                    events @ [event_info (item_subject it) (item_start it) (item_end it)
                                (item_categories it)]
                  else events)))"

definition fetch_events :: "item list \<Rightarrow> event list" where
  "fetch_events items = foldl fetch_step [] items"

section \<open>Auxiliary notions for the proofs\<close>

text \<open>
  None of the following is a function of the program. \<open>clip\<close> is the body the two
  day loops share (the work window of one date cut out of an event's span);
  \<open>day_overlap\<close> is its length in hours; \<open>add_interval\<close> is one turn of the loop
  that files clipped intervals under their date; \<open>holiday_span\<close> lists the dates the
  holiday loop visits for one event. \<open>disjoint\<close> reads intervals as half-open
  \<open>[start, end)\<close>: two intervals that only touch are disjoint, and \<open>separated\<close> ones
  have a gap between them.
\<close>

definition clip :: "datetime \<Rightarrow> datetime \<Rightarrow> date \<Rightarrow> interval option" where
  "clip start_t end_t d =
     (let wd = weekday d;
          daily_hours = dict_get DAILY_WORK_HOURS wd 0;
          start_hour = dict_get DAILY_START_TIMES wd 9;
          work_start = combine d start_hour;
          work_end = combine d (start_hour + daily_hours)
      in if daily_hours > 0 \<and> max start_t work_start < min end_t work_end
         then Some (max start_t work_start, min end_t work_end) else None)"

definition day_overlap :: "datetime \<Rightarrow> datetime \<Rightarrow> date \<Rightarrow> rat" where
  "day_overlap start_t end_t d =
     (case clip start_t end_t d of None \<Rightarrow> 0 | Some iv \<Rightarrow> interval_hours iv)"

definition add_interval ::
  "date set \<Rightarrow> datetime \<Rightarrow> datetime \<Rightarrow> date \<Rightarrow> (date \<times> interval list) list
     \<Rightarrow> (date \<times> interval list) list" where
  "add_interval H s e d ibd =
     (if d \<in> H then ibd
      else (case clip s e d of None \<Rightarrow> ibd
            | Some iv \<Rightarrow> defaultdict_update [] d (\<lambda>l. l @ [iv]) ibd))"





definition holiday_span :: "event \<Rightarrow> date list" where
  "holiday_span ev =
     (if is_all_day_holiday ev then [date_of (start_pt ev)..date_of (end_pt ev) - 1] else [])"

definition work_hours_on :: "date \<Rightarrow> rat" where
  "work_hours_on d = of_int (dict_get DAILY_WORK_HOURS (weekday d) 0)"

definition holiday_hours :: "event \<Rightarrow> rat" where
  "holiday_hours ev = sum_list (map work_hours_on (holiday_span ev))"




section \<open>Basic facts\<close>

declare work_hours_overlap_loop.simps [simp del]
declare intervals_loop.simps [simp del]
declare holiday_dates_loop.simps [simp del]



subsection \<open>The day loops\<close>

lemma daily_work_hours_cases:
  "dict_get DAILY_WORK_HOURS wd 0 \<in> {0, 8, 9}"
  by (simp add: dict_get_def DAILY_WORK_HOURS_def DAILY_WORK_HOURS_items_def)

lemma daily_work_hours_nonneg: "0 \<le> dict_get DAILY_WORK_HOURS wd 0"
  using daily_work_hours_cases [of wd] by auto

lemma clip_valid: "clip s e d = Some iv \<Longrightarrow> fst iv < snd iv"
  by (auto simp: clip_def Let_def split: if_splits)

lemma day_overlap_nonneg: "0 \<le> day_overlap s e d"
  by (auto simp: day_overlap_def interval_hours_def hours_of_seconds_def
      split: option.splits dest: clip_valid)

lemma work_hours_overlap_loop_step:
  "c \<le> l \<Longrightarrow>
   work_hours_overlap_loop s e c l t = work_hours_overlap_loop s e (c + 1) l (t + day_overlap s e c)"
  using daily_work_hours_nonneg [of "weekday c"]
  by (subst work_hours_overlap_loop.simps)
    (simp add: day_overlap_def clip_def Let_def interval_hours_def)

lemma work_hours_overlap_loop_stop: "\<not> c \<le> l \<Longrightarrow> work_hours_overlap_loop s e c l t = t"
  by (subst work_hours_overlap_loop.simps) simp

lemma work_hours_overlap_loop_sum:
  "work_hours_overlap_loop s e c l t = t + sum_list (map (day_overlap s e) [c..l])"
proof (induction "nat (l + 1 - c)" arbitrary: c t)
  case 0
  then have "\<not> c \<le> l" by simp
  then show ?case
    by (simp add: work_hours_overlap_loop_stop)
next
  case (Suc n)
  then have le: "c \<le> l" and n: "n = nat (l + 1 - (c + 1))" by simp_all
  have up: "[c..l] = c # [c + 1..l]"
    using le by (simp add: upto_rec1)
  show ?case
    using Suc.hyps(1) [OF n] by (simp add: work_hours_overlap_loop_step [OF le] up)
qed

lemma calculate_work_hours_overlap_sum:
  "calculate_work_hours_overlap s e = sum_list (map (day_overlap s e) [date_of s..date_of e])"
proof -
  have "0 \<le> sum_list (map (day_overlap s e) [date_of s..date_of e])"
    by (rule sum_list_nonneg) (auto simp: day_overlap_nonneg)
  then show ?thesis
    by (simp add: calculate_work_hours_overlap_def work_hours_overlap_loop_sum)
qed

lemma intervals_loop_stop: "\<not> c \<le> l \<Longrightarrow> intervals_loop H s e c l ibd = ibd"
  by (subst intervals_loop.simps) simp

lemma intervals_loop_step:
  "c \<le> l \<Longrightarrow>
   intervals_loop H s e c l ibd = intervals_loop H s e (c + 1) l (add_interval H s e c ibd)"
  by (subst intervals_loop.simps) (simp add: add_interval_def clip_def Let_def)

lemma intervals_loop_fold:
  "intervals_loop H s e c l ibd = foldl (\<lambda>acc d. add_interval H s e d acc) ibd [c..l]"
proof (induction "nat (l + 1 - c)" arbitrary: c ibd)
  case 0
  then have "\<not> c \<le> l" by simp
  then show ?case
    by (simp add: intervals_loop_stop)
next
  case (Suc n)
  then have le: "c \<le> l" and n: "n = nat (l + 1 - (c + 1))" by simp_all
  have up: "[c..l] = c # [c + 1..l]"
    using le by (simp add: upto_rec1)
  show ?case
    using Suc.hyps(1) [OF n] by (simp add: intervals_loop_step [OF le] up)
qed

















lemma holiday_dates_loop_eq:
  "holiday_dates_loop c e (D, r) = (D \<union> set [c..e - 1], r + sum_list (map work_hours_on [c..e - 1]))"
proof (induction "nat (e - c)" arbitrary: c D r)
  case 0
  then have "\<not> c < e" by simp
  then show ?case
    by (subst holiday_dates_loop.simps) simp
next
  case (Suc n)
  then have lt: "c < e" and n: "n = nat (e - (c + 1))" by simp_all
  have up: "[c..e - 1] = c # [c + 1..e - 1]"
    using lt by (simp add: upto_rec1)
  have "holiday_dates_loop c e (D, r) =
          holiday_dates_loop (c + 1) e (insert c D, r + work_hours_on c)"
    using lt by (subst holiday_dates_loop.simps) (simp add: work_hours_on_def)
  then show ?case
    using Suc.hyps(1) [OF n, of "insert c D" "r + work_hours_on c"] by (simp add: up)
qed

lemma holiday_step_eq:
  "holiday_step st ev = (fst st \<union> set (holiday_span ev), snd st + holiday_hours ev)"
  by (cases st) (auto simp: holiday_step_def holiday_span_def holiday_hours_def holiday_dates_loop_eq)

lemma foldl_holiday_step:
  "foldl holiday_step st evs =
     (fst st \<union> (\<Union>ev \<in> set evs. set (holiday_span ev)), snd st + sum_list (map holiday_hours evs))"
proof (induction evs arbitrary: st)
  case Nil
  then show ?case by simp
next
  case (Cons ev evs)
  have "foldl holiday_step (holiday_step st ev) evs =
          (fst (holiday_step st ev) \<union> (\<Union>ev \<in> set evs. set (holiday_span ev)),
           snd (holiday_step st ev) + sum_list (map holiday_hours evs))"
    by (rule Cons.IH)
  then show ?case
    by (simp add: holiday_step_eq [of st ev] Un_assoc add.assoc)
qed

lemma holiday_dates_of_eq:
  "holiday_dates_of evs = (\<Union>ev \<in> set evs. set (holiday_span ev))"
  by (simp add: holiday_dates_of_def find_holidays_def foldl_holiday_step)

lemma holiday_hours_reduction_of_eq:
  "holiday_hours_reduction_of evs = sum_list (map holiday_hours evs)"
  by (simp add: holiday_hours_reduction_of_def find_holidays_def foldl_holiday_step)















subsection \<open>Strings and categories\<close>




section \<open>The categorizer\<close>


section \<open>Budget status\<close>

text \<open>
  Claim C6, amended. For the budget of \<open>Focus Time\<close> (min 12, max 15, warn 14) the
  status is \<open>Exceeded\<close> exactly when the hours are above 15, \<open>Warning\<close> exactly when
  they are above 14 and at most 15, \<open>Below min\<close> exactly when they are below 12, and
  empty (OK) exactly from 12 to 14. So 14 and 12 are OK, 14.01 is a warning, 15.01 is
  exceeded, 11.99 is below the minimum, and 15 itself is a warning: it is above the warning
  threshold and not above the maximum.
\<close>

theorem warn_msg_focus_time:
  "BUDGETS ''Focus Time'' = Some \<lparr>bmin = 12, bmax = 15, bwarn = 14\<rparr>
   \<and> (warn_msg (BUDGETS ''Focus Time'') hrs = ''Exceeded'' \<longleftrightarrow> hrs > 15)
   \<and> (warn_msg (BUDGETS ''Focus Time'') hrs = ''Warning'' \<longleftrightarrow> hrs > 14 \<and> hrs \<le> 15)
   \<and> (warn_msg (BUDGETS ''Focus Time'') hrs = ''Below min'' \<longleftrightarrow> hrs < 12)
   \<and> (warn_msg (BUDGETS ''Focus Time'') hrs = [] \<longleftrightarrow> 12 \<le> hrs \<and> hrs \<le> 14)
   \<and> warn_msg (BUDGETS ''Focus Time'') 14 = []
   \<and> warn_msg (BUDGETS ''Focus Time'') 12 = []
   \<and> warn_msg (BUDGETS ''Focus Time'') 15 = ''Warning''
   \<and> warn_msg (BUDGETS ''Focus Time'') (1401 / 100) = ''Warning''
   \<and> warn_msg (BUDGETS ''Focus Time'') (1501 / 100) = ''Exceeded''
   \<and> warn_msg (BUDGETS ''Focus Time'') (1199 / 100) = ''Below min''"
  by (auto simp: BUDGETS_def BUDGETS_items_def warn_msg_def)

text \<open>
  Claim C6 as stated asks for the status OK at exactly 15 hours; the program reports
  \<open>Warning\<close> there.
\<close>

theorem warn_msg_at_max_counterexample:
  "warn_msg (BUDGETS ''Focus Time'') 15 \<noteq> []"
  by (simp add: BUDGETS_def BUDGETS_items_def warn_msg_def)

section \<open>The empty event list\<close>

text \<open>
  Claim C2 as stated asks for a report with zero hours in every category on the empty list;
  the program's first statement returns before anything is computed.
\<close>

theorem build_report_empty_counterexample:
  "build_report [] False = None \<and> build_report [] True = None"
  by (simp add: build_report_def)

text \<open>
  Claim C2, amended. The empty event list is not an error, and it yields no report: the
  program returns without a report exactly when the list is empty, and builds one for every
  other list.
\<close>

theorem build_report_none_iff:
  "(build_report events debug = None) = (events = [])"
  by (simp add: build_report_def)

section \<open>Clipping to the work window\<close>

lemma work_window_bounds:
  "0 \<le> dict_get DAILY_START_TIMES wd 9
   \<and> dict_get DAILY_START_TIMES wd 9 + dict_get DAILY_WORK_HOURS wd 0 \<le> 17"
  by (simp add: dict_get_def DAILY_START_TIMES_def DAILY_WORK_HOURS_def DAILY_WORK_HOURS_items_def)

lemma date_of_eqI: "d * 86400 \<le> t \<Longrightarrow> t < d * 86400 + 86400 \<Longrightarrow> date_of t = d"
  unfolding date_of_def by linarith

lemma clip_inside:
  assumes hrs: "0 < dict_get DAILY_WORK_HOURS (weekday d) 0"
    and lo: "combine d (dict_get DAILY_START_TIMES (weekday d) 9) \<le> s"
    and lt: "s < e"
    and hi: "e \<le> combine d (dict_get DAILY_START_TIMES (weekday d) 9
                 + dict_get DAILY_WORK_HOURS (weekday d) 0)"
  shows "clip s e d = Some (s, e)" "date_of s = d" "date_of e = d"
proof -
  show "clip s e d = Some (s, e)"
    using assms by (simp add: clip_def Let_def max_def min_def)
  have b: "d * 86400 \<le> s" "e < d * 86400 + 86400"
    using work_window_bounds [of "weekday d"] lo hi by (simp_all add: combine_def)
  show "date_of s = d"
    using b lt by (intro date_of_eqI) simp_all
  show "date_of e = d"
    using b lt by (intro date_of_eqI) simp_all
qed

lemma clip_no_hours: "dict_get DAILY_WORK_HOURS (weekday d) 0 = 0 \<Longrightarrow> clip s e d = None"
  by (simp add: clip_def Let_def)

lemma day_overlap_zero:
  "list_all (\<lambda>d. dict_get DAILY_WORK_HOURS (weekday d) 0 = 0) ds \<Longrightarrow>
   sum_list (map (day_overlap s e) ds) = 0"
  by (induction ds) (auto simp: day_overlap_def clip_no_hours)

lemma fold_add_interval_none:
  "list_all (\<lambda>d. dict_get DAILY_WORK_HOURS (weekday d) 0 = 0) ds \<Longrightarrow>
   foldl (\<lambda>acc d. add_interval H s e d acc) ibd ds = ibd"
  by (induction ds) (auto simp: add_interval_def clip_no_hours)

text \<open>
  Claim C7. An event whose span lies inside the work window of a single date \<open>d\<close> (a date
  with work hours, the window's start at or before the event's start, the event's end at
  or before the window's end) is clipped to exactly its own span: its work hours are its
  full duration, and the one interval filed for it is the span itself, under \<open>d\<close>. An
  event that touches only dates without work hours (a Saturday and a Sunday, say) has 0
  clipped hours and files no interval.
\<close>

theorem clipping_correctness:
  "(0 < dict_get DAILY_WORK_HOURS (weekday d) 0
      \<and> combine d (dict_get DAILY_START_TIMES (weekday d) 9) \<le> s \<and> s < e
      \<and> e \<le> combine d (dict_get DAILY_START_TIMES (weekday d) 9
                 + dict_get DAILY_WORK_HOURS (weekday d) 0)
    \<longrightarrow> calculate_work_hours_overlap s e = hours_of_seconds (e - s)
      \<and> intervals_loop {} s e (date_of s) (date_of e) [] = [(d, [(s, e)])])
   \<and> (list_all (\<lambda>d. dict_get DAILY_WORK_HOURS (weekday d) 0 = 0) [date_of s'..date_of e']
    \<longrightarrow> calculate_work_hours_overlap s' e' = 0
      \<and> intervals_loop {} s' e' (date_of s') (date_of e') [] = [])"
proof (intro conjI impI)
  assume a: "0 < dict_get DAILY_WORK_HOURS (weekday d) 0
      \<and> combine d (dict_get DAILY_START_TIMES (weekday d) 9) \<le> s \<and> s < e
      \<and> e \<le> combine d (dict_get DAILY_START_TIMES (weekday d) 9
                 + dict_get DAILY_WORK_HOURS (weekday d) 0)"
  then have c: "clip s e d = Some (s, e)" and ds: "date_of s = d" and de: "date_of e = d"
    using clip_inside [of d s e] by blast+
  show "calculate_work_hours_overlap s e = hours_of_seconds (e - s)"
    by (simp add: calculate_work_hours_overlap_sum ds de day_overlap_def c interval_hours_def)
  show "intervals_loop {} s e (date_of s) (date_of e) [] = [(d, [(s, e)])]"
    by (simp add: intervals_loop_fold ds de add_interval_def c)
next
  assume z: "list_all (\<lambda>d. dict_get DAILY_WORK_HOURS (weekday d) 0 = 0) [date_of s'..date_of e']"
  show "calculate_work_hours_overlap s' e' = 0"
    by (simp add: calculate_work_hours_overlap_sum day_overlap_zero [OF z])
  show "intervals_loop {} s' e' (date_of s') (date_of e') [] = []"
    by (simp add: intervals_loop_fold fold_add_interval_none [OF z])
qed

text \<open>
  The theorem at a Tuesday meeting from 10:00 to 11:30, and at an event from Saturday 10:00
  to Sunday 18:00.
\<close>

theorem clipping_correctness_witness:
  "calculate_work_hours_overlap (mk_datetime 2024 1 16 10 0 0) (mk_datetime 2024 1 16 11 30 0) = 3 / 2
   \<and> intervals_loop {} (mk_datetime 2024 1 16 10 0 0) (mk_datetime 2024 1 16 11 30 0)
        (date_of (mk_datetime 2024 1 16 10 0 0)) (date_of (mk_datetime 2024 1 16 11 30 0)) []
      = [(ymd2ord 2024 1 16, [(mk_datetime 2024 1 16 10 0 0, mk_datetime 2024 1 16 11 30 0)])]
   \<and> weekday (ymd2ord 2024 1 13) = 5
   \<and> calculate_work_hours_overlap (mk_datetime 2024 1 13 10 0 0) (mk_datetime 2024 1 14 18 0 0) = 0"
proof -
  let ?s = "mk_datetime 2024 1 16 10 0 0" and ?e = "mk_datetime 2024 1 16 11 30 0"
  let ?s' = "mk_datetime 2024 1 13 10 0 0" and ?e' = "mk_datetime 2024 1 14 18 0 0"
  let ?d = "ymd2ord 2024 1 16"
  have h1: "0 < dict_get DAILY_WORK_HOURS (weekday ?d) 0
      \<and> combine ?d (dict_get DAILY_START_TIMES (weekday ?d) 9) \<le> ?s \<and> ?s < ?e
      \<and> ?e \<le> combine ?d (dict_get DAILY_START_TIMES (weekday ?d) 9
                 + dict_get DAILY_WORK_HOURS (weekday ?d) 0)"
    by code_simp
  have h2: "list_all (\<lambda>d. dict_get DAILY_WORK_HOURS (weekday d) 0 = 0) [date_of ?s'..date_of ?e']"
    by code_simp
  have v: "hours_of_seconds (?e - ?s) = 3 / 2" "weekday (ymd2ord 2024 1 13) = 5"
    by code_simp+
  show ?thesis
    using clipping_correctness [of ?d ?s ?e ?s' ?e'] h1 h2 v by simp
qed

section \<open>Merging the intervals of a day\<close>





text \<open>
  Claim C4. The intervals 09:00 to 10:00 and 09:30 to 10:30 of one day merge to the single
  interval 09:00 to 10:30, 1.5 hours of busy time, while their summed duration is 2 hours:
  the totals differ by the half hour of overlap. On Tuesday 2024-01-16 two events with these
  spans are filed under that date unclipped, and the report has 1.5 busy hours against 2
  raw hours.
\<close>

theorem merge_overlapping_pair:
  "merge_intervals [(combine d 9, combine d 10), (combine d 9 + 1800, combine d 10 + 1800)]
     = [(combine d 9, combine d 10 + 1800)]
   \<and> total_hours
        (merge_intervals [(combine d 9, combine d 10), (combine d 9 + 1800, combine d 10 + 1800)])
      = 3 / 2
   \<and> total_hours [(combine d 9, combine d 10), (combine d 9 + 1800, combine d 10 + 1800)] = 2
   \<and> intervals_by_day_of {}
        [event_info ''A'' (mk_datetime 2024 1 16 9 0 0) (mk_datetime 2024 1 16 10 0 0) [],
         event_info ''B'' (mk_datetime 2024 1 16 9 30 0) (mk_datetime 2024 1 16 10 30 0) []]
      = [(ymd2ord 2024 1 16,
          [(mk_datetime 2024 1 16 9 0 0, mk_datetime 2024 1 16 10 0 0),
           (mk_datetime 2024 1 16 9 30 0, mk_datetime 2024 1 16 10 30 0)])]
   \<and> busy_hours_total (report_body
        [event_info ''A'' (mk_datetime 2024 1 16 9 0 0) (mk_datetime 2024 1 16 10 0 0) [],
         event_info ''B'' (mk_datetime 2024 1 16 9 30 0) (mk_datetime 2024 1 16 10 30 0) []]
        False) = 3 / 2
   \<and> total_meeting_time_raw (report_body
        [event_info ''A'' (mk_datetime 2024 1 16 9 0 0) (mk_datetime 2024 1 16 10 0 0) [],
         event_info ''B'' (mk_datetime 2024 1 16 9 30 0) (mk_datetime 2024 1 16 10 30 0) []]
        False) = 2"
proof -
  have "merge_intervals [(combine d 9, combine d 10), (combine d 9 + 1800, combine d 10 + 1800)]
     = [(combine d 9, combine d 10 + 1800)]"
    by (simp add: merge_intervals_def merge_step_def combine_def)
  moreover have "total_hours [(combine d 9, combine d 10 + 1800)] = 3 / 2"
    "total_hours [(combine d 9, combine d 10), (combine d 9 + 1800, combine d 10 + 1800)] = 2"
    by (simp_all add: combine_def total_hours_def interval_hours_def hours_of_seconds_def)
  moreover have "intervals_by_day_of {}
        [event_info ''A'' (mk_datetime 2024 1 16 9 0 0) (mk_datetime 2024 1 16 10 0 0) [],
         event_info ''B'' (mk_datetime 2024 1 16 9 30 0) (mk_datetime 2024 1 16 10 30 0) []]
      = [(ymd2ord 2024 1 16,
          [(mk_datetime 2024 1 16 9 0 0, mk_datetime 2024 1 16 10 0 0),
           (mk_datetime 2024 1 16 9 30 0, mk_datetime 2024 1 16 10 30 0)])]"
    by code_simp
  moreover have "busy_hours_total (report_body
        [event_info ''A'' (mk_datetime 2024 1 16 9 0 0) (mk_datetime 2024 1 16 10 0 0) [],
         event_info ''B'' (mk_datetime 2024 1 16 9 30 0) (mk_datetime 2024 1 16 10 30 0) []]
        False) = 3 / 2"
    by code_simp
  moreover have "total_meeting_time_raw (report_body
        [event_info ''A'' (mk_datetime 2024 1 16 9 0 0) (mk_datetime 2024 1 16 10 0 0) [],
         event_info ''B'' (mk_datetime 2024 1 16 9 30 0) (mk_datetime 2024 1 16 10 30 0) []]
        False) = 2"
    by code_simp
  ultimately show ?thesis by simp
qed




section \<open>The totals of the report\<close>










section \<open>Holidays\<close>

text \<open>
  Claim C1 at two holiday events that share a date. A holiday on Monday 2024-01-15 and a
  vacation over Monday 2024-01-15 and Tuesday 2024-01-16 give the holiday dates
  \<open>{2024-01-15, 2024-01-16}\<close>, whose work hours are 8 + 8 = 16; the program's reduction
  is 24, because Monday's 8 hours are added once for each of the two events, and the
  adjusted total is 42 - 24 = 18. (What the loop computes in general is
  \<open>holiday_dates_of_eq\<close> and \<open>holiday_hours_reduction_of_eq\<close>: the set of the dates
  visited, and one term per event and date visited.)
\<close>

theorem holiday_reduction_counts_date_twice:
  "fetch_events
     [\<lparr>item_subject = ''Holiday'', item_start = mk_datetime 2024 1 15 0 0 0,
       item_end = mk_datetime 2024 1 16 0 0 0, item_categories = ''Holiday/Vacation'',
       busy_status = 0, is_cancelled = False\<rparr>,
      \<lparr>item_subject = ''Vacation'', item_start = mk_datetime 2024 1 15 0 0 0,
       item_end = mk_datetime 2024 1 17 0 0 0, item_categories = ''Holiday/Vacation'',
       busy_status = 3, is_cancelled = False\<rparr>]
     = [event_info ''Holiday'' (mk_datetime 2024 1 15 0 0 0) (mk_datetime 2024 1 16 0 0 0)
          ''Holiday/Vacation'',
        event_info ''Vacation'' (mk_datetime 2024 1 15 0 0 0) (mk_datetime 2024 1 17 0 0 0)
          ''Holiday/Vacation'']
   \<and> holiday_dates_of
       [event_info ''Holiday'' (mk_datetime 2024 1 15 0 0 0) (mk_datetime 2024 1 16 0 0 0)
          ''Holiday/Vacation'',
        event_info ''Vacation'' (mk_datetime 2024 1 15 0 0 0) (mk_datetime 2024 1 17 0 0 0)
          ''Holiday/Vacation'']
     = {ymd2ord 2024 1 15, ymd2ord 2024 1 16}
   \<and> work_hours_on (ymd2ord 2024 1 15) + work_hours_on (ymd2ord 2024 1 16) = 16
   \<and> holiday_hours_reduction_of
       [event_info ''Holiday'' (mk_datetime 2024 1 15 0 0 0) (mk_datetime 2024 1 16 0 0 0)
          ''Holiday/Vacation'',
        event_info ''Vacation'' (mk_datetime 2024 1 15 0 0 0) (mk_datetime 2024 1 17 0 0 0)
          ''Holiday/Vacation'']
     = 24
   \<and> map_option adjusted_total_work_hours (build_report
       [event_info ''Holiday'' (mk_datetime 2024 1 15 0 0 0) (mk_datetime 2024 1 16 0 0 0)
          ''Holiday/Vacation'',
        event_info ''Vacation'' (mk_datetime 2024 1 15 0 0 0) (mk_datetime 2024 1 17 0 0 0)
          ''Holiday/Vacation''] False) = Some 18"
  by code_simp

lemma monday_holiday:
  assumes "start_pt h = mk_datetime 2024 1 15 0 0 0" "end_pt h = mk_datetime 2024 1 16 0 0 0"
    and "categories h = ''Holiday/Vacation''"
  shows "is_all_day_holiday h" "holiday_span h = [ymd2ord 2024 1 15]" "holiday_hours h = 8"
proof -
  have c: "first_category ''Holiday/Vacation'' = ''Holiday/Vacation''"
    by code_simp
  have t: "hour_of (mk_datetime 2024 1 15 0 0 0) = 0" "minute_of (mk_datetime 2024 1 15 0 0 0) = 0"
    "second_of (mk_datetime 2024 1 15 0 0 0) = 0" "hour_of (mk_datetime 2024 1 16 0 0 0) = 0"
    "minute_of (mk_datetime 2024 1 16 0 0 0) = 0" "second_of (mk_datetime 2024 1 16 0 0 0) = 0"
    "hours_of_seconds (mk_datetime 2024 1 16 0 0 0 - mk_datetime 2024 1 15 0 0 0) = 24"
    by code_simp+
  show h: "is_all_day_holiday h"
    using assms c t by (simp add: is_all_day_holiday_def Let_def)
  have d: "[date_of (mk_datetime 2024 1 15 0 0 0)..date_of (mk_datetime 2024 1 16 0 0 0) - 1]
      = [ymd2ord 2024 1 15]"
    by code_simp
  show s: "holiday_span h = [ymd2ord 2024 1 15]"
    using h assms d by (simp add: holiday_span_def)
  have "work_hours_on (ymd2ord 2024 1 15) = 8"
    by code_simp
  then show "holiday_hours h = 8"
    by (simp add: holiday_hours_def s)
qed

lemma not_holiday_span: "\<not> is_all_day_holiday ev \<Longrightarrow> holiday_span ev = []"
  by (simp add: holiday_span_def)

lemma find_holidays_drop:
  assumes "\<not> is_all_day_holiday ev"
  shows "holiday_dates_of (xs @ ev # ys) = holiday_dates_of (xs @ ys)"
    and "holiday_hours_reduction_of (xs @ ev # ys) = holiday_hours_reduction_of (xs @ ys)"
  using not_holiday_span [OF assms]
  by (simp_all add: holiday_dates_of_eq holiday_hours_reduction_of_eq holiday_hours_def)

lemma non_holiday_events_drop:
  "date_of (start_pt ev) \<in> H \<Longrightarrow>
   non_holiday_events_of H (xs @ ev # ys) = non_holiday_events_of H (xs @ ys)"
  by (simp add: non_holiday_events_of_def)

lemma report_body_drop:
  assumes "\<not> is_all_day_holiday ev" and "date_of (start_pt ev) \<in> holiday_dates_of (xs @ ev # ys)"
  shows "report_body (xs @ ev # ys) debug =
     (report_body (xs @ ys) debug)
       \<lparr>events_analyzed := length (xs @ ev # ys),
        debug_section := debug_section (report_body (xs @ ev # ys) debug)\<rparr>"
proof -
  have H: "holiday_dates_of (xs @ ev # ys) = holiday_dates_of (xs @ ys)"
    and R: "holiday_hours_reduction_of (xs @ ev # ys) = holiday_hours_reduction_of (xs @ ys)"
    using find_holidays_drop [OF assms(1)] by simp_all
  have N: "non_holiday_events_of (holiday_dates_of (xs @ ys)) (xs @ ev # ys)
      = non_holiday_events_of (holiday_dates_of (xs @ ys)) (xs @ ys)"
    using assms(2) unfolding H by (rule non_holiday_events_drop)
  show ?thesis
    unfolding report_body_def Let_def H R N by simp
qed

text \<open>
  Claim C5. A full-day holiday event from 2024-01-15 00:00 to 2024-01-16 00:00 (a Monday,
  8 work hours) put anywhere into an event list adds that date to the holiday dates and
  lowers the adjusted total of work hours by exactly 8. An event that is not a full-day
  holiday and starts on a holiday date is not among the events kept: the hours by
  category, the rows, the raw total, the busy time and the free time are those of the
  list without it; and the debug listing still has its line, marked \<open>[FILTERED]\<close>.
\<close>

theorem holiday_exclusion:
  "(start_pt h = mk_datetime 2024 1 15 0 0 0 \<and> end_pt h = mk_datetime 2024 1 16 0 0 0
      \<and> categories h = ''Holiday/Vacation''
    \<longrightarrow> is_all_day_holiday h
      \<and> weekday (ymd2ord 2024 1 15) = 0
      \<and> holiday_dates_of (before @ h # after) = insert (ymd2ord 2024 1 15) (holiday_dates_of (before @ after))
      \<and> holiday_hours_reduction_of (before @ h # after) = holiday_hours_reduction_of (before @ after) + 8
      \<and> adjusted_total_work_hours (report_body (before @ h # after) debug)
          = adjusted_total_work_hours (report_body (before @ after) debug) - 8)
   \<and> (\<not> is_all_day_holiday ev \<and> date_of (start_pt ev) \<in> holiday_dates_of (xs @ ev # ys)
    \<longrightarrow> ev \<notin> set (non_holiday_events_of (holiday_dates_of (xs @ ev # ys)) (xs @ ev # ys))
      \<and> durations (report_body (xs @ ev # ys) debug) = durations (report_body (xs @ ys) debug)
      \<and> category_rows (report_body (xs @ ev # ys) debug) = category_rows (report_body (xs @ ys) debug)
      \<and> zero_rows (report_body (xs @ ev # ys) debug) = zero_rows (report_body (xs @ ys) debug)
      \<and> total_meeting_time_raw (report_body (xs @ ev # ys) debug)
          = total_meeting_time_raw (report_body (xs @ ys) debug)
      \<and> busy_hours_total (report_body (xs @ ev # ys) debug)
          = busy_hours_total (report_body (xs @ ys) debug)
      \<and> free_time (report_body (xs @ ev # ys) debug) = free_time (report_body (xs @ ys) debug)
      \<and> debug_line_of (holiday_dates_of (xs @ ev # ys)) ev
          \<in> set (debug_section (report_body (xs @ ev # ys) True))
      \<and> filtered_marker (debug_line_of (holiday_dates_of (xs @ ev # ys)) ev) = '' [FILTERED]'')"
proof (intro conjI impI)
  assume a: "start_pt h = mk_datetime 2024 1 15 0 0 0 \<and> end_pt h = mk_datetime 2024 1 16 0 0 0
      \<and> categories h = ''Holiday/Vacation''"
  then have hol: "is_all_day_holiday h" and sp: "holiday_span h = [ymd2ord 2024 1 15]"
    and hh: "holiday_hours h = 8"
    using monday_holiday [of h] by simp_all
  show "is_all_day_holiday h" by (rule hol)
  show "weekday (ymd2ord 2024 1 15) = 0" by code_simp
  show "holiday_dates_of (before @ h # after)
      = insert (ymd2ord 2024 1 15) (holiday_dates_of (before @ after))"
    by (auto simp: holiday_dates_of_eq sp)
  show r: "holiday_hours_reduction_of (before @ h # after)
      = holiday_hours_reduction_of (before @ after) + 8"
    by (simp add: holiday_hours_reduction_of_eq hh)
  show "adjusted_total_work_hours (report_body (before @ h # after) debug)
          = adjusted_total_work_hours (report_body (before @ after) debug) - 8"
    by (simp add: report_body_def Let_def r)
next
  assume b: "\<not> is_all_day_holiday ev \<and> date_of (start_pt ev) \<in> holiday_dates_of (xs @ ev # ys)"
  then have nh: "\<not> is_all_day_holiday ev" and inH: "date_of (start_pt ev) \<in> holiday_dates_of (xs @ ev # ys)"
    by simp_all
  note eq = report_body_drop [OF nh inH, of debug]
  show "ev \<notin> set (non_holiday_events_of (holiday_dates_of (xs @ ev # ys)) (xs @ ev # ys))"
    using inH by (simp add: non_holiday_events_of_def)
  show "durations (report_body (xs @ ev # ys) debug) = durations (report_body (xs @ ys) debug)"
    by (subst eq) simp
  show "category_rows (report_body (xs @ ev # ys) debug) = category_rows (report_body (xs @ ys) debug)"
    by (subst eq) simp
  show "zero_rows (report_body (xs @ ev # ys) debug) = zero_rows (report_body (xs @ ys) debug)"
    by (subst eq) simp
  show "total_meeting_time_raw (report_body (xs @ ev # ys) debug)
          = total_meeting_time_raw (report_body (xs @ ys) debug)"
    by (subst eq) simp
  show "busy_hours_total (report_body (xs @ ev # ys) debug)
          = busy_hours_total (report_body (xs @ ys) debug)"
    by (subst eq) simp
  show "free_time (report_body (xs @ ev # ys) debug) = free_time (report_body (xs @ ys) debug)"
    by (subst eq) simp
  show "debug_line_of (holiday_dates_of (xs @ ev # ys)) ev
          \<in> set (debug_section (report_body (xs @ ev # ys) True))"
    by (simp add: report_body_def Let_def debug_listing_def)
  show "filtered_marker (debug_line_of (holiday_dates_of (xs @ ev # ys)) ev) = '' [FILTERED]''"
    using nh inH by (simp add: debug_line_of_def)
qed

text \<open>
  The theorem at the Monday holiday together with a meeting from 10:00 to 11:00 on that
  Monday.
\<close>

theorem holiday_exclusion_witness:
  "holiday_hours_reduction_of
      [event_info ''Holiday'' (mk_datetime 2024 1 15 0 0 0) (mk_datetime 2024 1 16 0 0 0)
         ''Holiday/Vacation'',
       event_info ''Standup'' (mk_datetime 2024 1 15 10 0 0) (mk_datetime 2024 1 15 11 0 0)
         ''Focus Time'']
     = holiday_hours_reduction_of
      [event_info ''Standup'' (mk_datetime 2024 1 15 10 0 0) (mk_datetime 2024 1 15 11 0 0)
         ''Focus Time''] + 8
   \<and> durations (report_body
      [event_info ''Holiday'' (mk_datetime 2024 1 15 0 0 0) (mk_datetime 2024 1 16 0 0 0)
         ''Holiday/Vacation'',
       event_info ''Standup'' (mk_datetime 2024 1 15 10 0 0) (mk_datetime 2024 1 15 11 0 0)
         ''Focus Time''] True) = []
   \<and> busy_hours_total (report_body
      [event_info ''Holiday'' (mk_datetime 2024 1 15 0 0 0) (mk_datetime 2024 1 16 0 0 0)
         ''Holiday/Vacation'',
       event_info ''Standup'' (mk_datetime 2024 1 15 10 0 0) (mk_datetime 2024 1 15 11 0 0)
         ''Focus Time''] True) = 0
   \<and> filtered_marker (debug_line_of
      (holiday_dates_of
        [event_info ''Holiday'' (mk_datetime 2024 1 15 0 0 0) (mk_datetime 2024 1 16 0 0 0)
           ''Holiday/Vacation'',
         event_info ''Standup'' (mk_datetime 2024 1 15 10 0 0) (mk_datetime 2024 1 15 11 0 0)
           ''Focus Time''])
      (event_info ''Standup'' (mk_datetime 2024 1 15 10 0 0) (mk_datetime 2024 1 15 11 0 0)
         ''Focus Time'')) = '' [FILTERED]''"
proof -
  let ?h = "event_info ''Holiday'' (mk_datetime 2024 1 15 0 0 0) (mk_datetime 2024 1 16 0 0 0)
         ''Holiday/Vacation''"
  let ?ev = "event_info ''Standup'' (mk_datetime 2024 1 15 10 0 0) (mk_datetime 2024 1 15 11 0 0)
         ''Focus Time''"
  have h1: "start_pt ?h = mk_datetime 2024 1 15 0 0 0 \<and> end_pt ?h = mk_datetime 2024 1 16 0 0 0
      \<and> categories ?h = ''Holiday/Vacation''"
    by (simp add: event_info_def)
  have h2: "\<not> is_all_day_holiday ?ev \<and> date_of (start_pt ?ev) \<in> holiday_dates_of ([?h] @ ?ev # [])"
    by code_simp
  have v: "durations (report_body ([?h] @ []) True) = []"
    "busy_hours_total (report_body ([?h] @ []) True) = 0"
    by code_simp+
  note T = holiday_exclusion [where h = ?h and before = "[]" and after = "[?ev]" and debug = True
        and ev = ?ev and xs = "[?h]" and ys = "[]"]
  from T h1 have r: "holiday_hours_reduction_of ([] @ ?h # [?ev])
      = holiday_hours_reduction_of ([] @ [?ev]) + 8"
    by blast
  from T h2 have d: "durations (report_body ([?h] @ ?ev # []) True)
      = durations (report_body ([?h] @ []) True)"
    and b: "busy_hours_total (report_body ([?h] @ ?ev # []) True)
      = busy_hours_total (report_body ([?h] @ []) True)"
    and f: "filtered_marker (debug_line_of (holiday_dates_of ([?h] @ ?ev # [])) ?ev)
      = '' [FILTERED]''"
    by blast+
  show ?thesis
    using r d b f v by simp
qed

end
